theory Spec2Isabelle
  imports Complex_Main "HOL-Library.Multiset" "HOL-Library.List_Lexorder" "HOL-Library.Char_ord"
    "HOL-Library.Product_Lexorder"
begin

section \<open>Common table operations\<close>

text \<open>
  The scripts work on pandas data frames.  A frame is a list of rows, a numeric cell is a
  real number, and a missing cell (NaN) is \<open>None\<close>.  Floating-point rounding is not
  modelled: sums, products and quotients are the exact ones.
\<close>

type_synonym cell = "real option"

datatype error = IndexError | ZeroDivisionError

text \<open>\<^verbatim>\<open>Series.unique()\<close>: the distinct values in order of first appearance.\<close>

fun unique :: "'a list \<Rightarrow> 'a list" where
  "unique [] = []"
| "unique (x # xs) = x # unique (filter (\<lambda>y. y \<noteq> x) xs)"

text \<open>\<^verbatim>\<open>Series.sum(skipna=True)\<close>: missing cells count as zero.\<close>

definition nan_to_zero :: "cell \<Rightarrow> real" where
  "nan_to_zero c = (case c of None \<Rightarrow> 0 | Some v \<Rightarrow> v)"

definition sum_skipna :: "('r \<Rightarrow> cell) \<Rightarrow> 'r list \<Rightarrow> real" where
  "sum_skipna col df = sum_list (map (\<lambda>r. nan_to_zero (col r)) df)"

section \<open>Prompt1: billing and utilization rates per service line and period\<close>

record fact_row =
  Year :: int
  Service_Areas_Shortname :: string
  Month :: int
  Billable_Hours :: cell
  Total_Hours :: cell
  Utilized_Hours :: cell

definition get_quarter :: "int \<Rightarrow> string option" where
  "get_quarter month =
     (if month \<in> {1, 2, 3} then Some ''Q1''
      else if month \<in> {4, 5, 6} then Some ''Q2''
      else if month \<in> {7, 8, 9} then Some ''Q3''
      else if month \<in> {10, 11, 12} then Some ''Q4''
      else None)"

definition get_half_year :: "int \<Rightarrow> string option" where
  "get_half_year month = (if month \<le> 6 then Some ''H1'' else Some ''H2'')"

text \<open>
  The summed measures of one bucket and the two rates derived from them
  (\<^verbatim>\<open>x / total_hours * 100 if total_hours > 0 else 0\<close>).
\<close>

record summary =
  total_billable_hours :: real
  total_hours :: real
  utilized_hours :: real
  billing_rate_avg :: real
  utilization_rate_avg :: real

definition rate_pct :: "real \<Rightarrow> real \<Rightarrow> real" where
  "rate_pct part whole = (if whole > 0 then part / whole * 100 else 0)"

definition summarize :: "fact_row list \<Rightarrow> summary" where
  "summarize df =
     (let b = sum_skipna Billable_Hours df;
          t = sum_skipna Total_Hours df;
          u = sum_skipna Utilized_Hours df
      in \<lparr>total_billable_hours = b, total_hours = t, utilized_hours = u,
          billing_rate_avg = rate_pct b t, utilization_rate_avg = rate_pct u t\<rparr>)"

text \<open>The rows of one service line within one year (the two outer loops).\<close>

definition yearly_df :: "fact_row list \<Rightarrow> int \<Rightarrow> fact_row list" where
  "yearly_df df year = filter (\<lambda>r. Year r = year) df"

definition service_df :: "fact_row list \<Rightarrow> int \<Rightarrow> string \<Rightarrow> fact_row list" where
  "service_df df year service =
     filter (\<lambda>r. Service_Areas_Shortname r = service) (yearly_df df year)"

text \<open>
  Quarterly and half-yearly buckets.  A period label is compared with \<^verbatim>\<open>==\<close> on an
  object column, where a missing label (\<^verbatim>\<open>None\<close>) equals nothing, itself included.
\<close>

definition label_eq :: "string option \<Rightarrow> string option \<Rightarrow> bool" where
  "label_eq a b = (case (a, b) of (Some x, Some y) \<Rightarrow> x = y | _ \<Rightarrow> False)"

definition period_df ::
  "(int \<Rightarrow> string option) \<Rightarrow> fact_row list \<Rightarrow> string option \<Rightarrow> fact_row list" where
  "period_df period_func sdf period = filter (\<lambda>r. label_eq (period_func (Month r)) period) sdf"

definition period_summaries ::
  "(int \<Rightarrow> string option) \<Rightarrow> fact_row list \<Rightarrow> (string option \<times> summary) list" where
  "period_summaries period_func sdf =
     map (\<lambda>period. (period, summarize (period_df period_func sdf period)))
       (unique (map (\<lambda>r. period_func (Month r)) sdf))"

text \<open>
  Monthly buckets.  The loop looks the month's name up in \<^verbatim>\<open>calendar.month_name\<close>, a
  sequence of thirteen entries (the first is empty); a Python index below zero counts from
  the end, and an index outside the sequence raises.
\<close>

definition month_names :: "string list" where
  "month_names =
     ['''', ''January'', ''February'', ''March'', ''April'', ''May'', ''June'', ''July'',
      ''August'', ''September'', ''October'', ''November'', ''December'']"

definition month_name :: "int \<Rightarrow> error + string" where
  "month_name month =
     (if 0 \<le> month \<and> month \<le> 12 then Inr (month_names ! nat month)
      else if - 13 \<le> month \<and> month < 0 then Inr (month_names ! nat (month + 13))
      else Inl IndexError)"

definition month_df :: "fact_row list \<Rightarrow> int \<Rightarrow> fact_row list" where
  "month_df sdf month = filter (\<lambda>r. Month r = month) sdf"

fun monthly_loop :: "fact_row list \<Rightarrow> int list \<Rightarrow> error + (int \<times> string \<times> summary) list" where
  "monthly_loop sdf [] = Inr []"
| "monthly_loop sdf (month # months) =
     (case month_name month of
        Inl e \<Rightarrow> Inl e
      | Inr name \<Rightarrow>
          (case monthly_loop sdf months of
             Inl e \<Rightarrow> Inl e
           | Inr rest \<Rightarrow> Inr ((month, name, summarize (month_df sdf month)) # rest)))"

definition monthly_summaries :: "fact_row list \<Rightarrow> error + (int \<times> string \<times> summary) list" where
  "monthly_summaries sdf = monthly_loop sdf (unique (map Month sdf))"

text \<open>The measure of a bucket list: the sum of one summed field over its buckets.\<close>

definition bucket_total :: "(summary \<Rightarrow> real) \<Rightarrow> (int \<times> string \<times> summary) list \<Rightarrow> real" where
  "bucket_total field buckets = sum_list (map (\<lambda>(month, name, s). field s) buckets)"

text \<open>A small frame used to run the definitions on concrete rows.\<close>

definition demo_rows :: "fact_row list" where
  "demo_rows =
     [\<lparr>Year = 2023, Service_Areas_Shortname = ''Audit'', Month = 1,
        Billable_Hours = Some 30, Total_Hours = Some 40, Utilized_Hours = Some 35\<rparr>,
      \<lparr>Year = 2023, Service_Areas_Shortname = ''Audit'', Month = 2,
        Billable_Hours = Some 10, Total_Hours = Some 40, Utilized_Hours = None\<rparr>,
      \<lparr>Year = 2023, Service_Areas_Shortname = ''Tax'', Month = 1,
        Billable_Hours = Some 5, Total_Hours = Some 8, Utilized_Hours = Some 6\<rparr>,
      \<lparr>Year = 2023, Service_Areas_Shortname = ''Audit'', Month = 1,
        Billable_Hours = Some 20, Total_Hours = Some 20, Utilized_Hours = Some 20\<rparr>]"

text \<open>
  The rate of a single row, by the same formula as a bucket's, and the arithmetic mean of
  these per-row rates: the quantity the aggregated rate is compared with.
\<close>

definition row_billing_rate :: "fact_row \<Rightarrow> real" where
  "row_billing_rate r = billing_rate_avg (summarize [r])"

definition mean_row_billing_rate :: "fact_row list \<Rightarrow> real" where
  "mean_row_billing_rate df = sum_list (map row_billing_rate df) / real (length df)"

definition hours_row :: "int \<Rightarrow> real \<Rightarrow> real \<Rightarrow> fact_row" where
  "hours_row month billable hours =
     \<lparr>Year = 2023, Service_Areas_Shortname = ''Audit'', Month = month,
      Billable_Hours = Some billable, Total_Hours = Some hours, Utilized_Hours = Some billable\<rparr>"

section \<open>Prompt2: contribution margin per service line\<close>

text \<open>
  An aggregated row as the two helpers read it.  The production costs are read with
  \<^verbatim>\<open>row.get(..., 0)\<close>: \<open>None\<close> is a frame without that column.  The helpers run on
  the cells of an object row, which are Python floats, so a division by zero raises.
\<close>

record margin_row =
  Service_Line :: string
  Contribution_Margin_kNOK :: real
  Total_Revenue_kNOK :: real
  Production_Costs_kNOK :: "real option"
  Budget_Contribution_Margin_kNOK :: real
  Budget_Total_Revenue_kNOK :: real

definition py_div :: "real \<Rightarrow> real \<Rightarrow> error + real" where
  "py_div a b = (if b = 0 then Inl ZeroDivisionError else Inr (a / b))"

text \<open>\<^verbatim>\<open>(margin / revenue) * 100\<close> and \<^verbatim>\<open>-(margin / revenue) * 100\<close>.\<close>

definition ratio_pct :: "real \<Rightarrow> real \<Rightarrow> error + real" where
  "ratio_pct margin revenue =
     (case py_div margin revenue of Inl e \<Rightarrow> Inl e | Inr q \<Rightarrow> Inr (q * 100))"

definition flipped_ratio_pct :: "real \<Rightarrow> real \<Rightarrow> error + real" where
  "flipped_ratio_pct margin revenue =
     (case py_div margin revenue of Inl e \<Rightarrow> Inl e | Inr q \<Rightarrow> Inr (- q * 100))"

definition calculate_contribution_margin :: "margin_row \<Rightarrow> error + real" where
  "calculate_contribution_margin row =
     (let total_revenue = Total_Revenue_kNOK row;
          production_costs = (case Production_Costs_kNOK row of None \<Rightarrow> 0 | Some c \<Rightarrow> c)
      in if total_revenue = 0 then
           (if production_costs = 0 then Inr 0
            else if production_costs > 0 then Inr (- 100)
            else ratio_pct (Contribution_Margin_kNOK row) total_revenue)
         else if total_revenue < 0 then
           flipped_ratio_pct (Contribution_Margin_kNOK row) total_revenue
         else ratio_pct (Contribution_Margin_kNOK row) total_revenue)"

definition calculate_budget_contribution_margin :: "margin_row \<Rightarrow> error + real" where
  "calculate_budget_contribution_margin row =
     (let budget_total_revenue = Budget_Total_Revenue_kNOK row
      in if budget_total_revenue < 0 then
           flipped_ratio_pct (Budget_Contribution_Margin_kNOK row) budget_total_revenue
         else if budget_total_revenue \<noteq> 0 then
           ratio_pct (Budget_Contribution_Margin_kNOK row) budget_total_revenue
         else Inr 0)"

text \<open>
  The change against the previous period (\<^verbatim>\<open>generate_bar_chart\<close>).  The previous margin
  comes from a left merge: it is missing (\<open>None\<close>) for a service line the previous frame
  does not have.  With no previous frame at all the column is filled with 0.
\<close>

definition change_pct :: "real \<Rightarrow> real option \<Rightarrow> real" where
  "change_pct cm prev_cm =
     (case prev_cm of
        None \<Rightarrow> 0
      | Some p \<Rightarrow> if p \<noteq> 0 then (cm - p) / \<bar>p\<bar> * 100 else 0)"

definition change_column ::
  "(string \<times> real) list \<Rightarrow> (string \<times> real) list option \<Rightarrow> (string \<times> real) list" where
  "change_column aggregated prev_aggregated =
     map (\<lambda>(service, cm).
            (service, case prev_aggregated of
                        None \<Rightarrow> 0
                      | Some prev \<Rightarrow> change_pct cm (map_of prev service)))
       aggregated"

definition margin_of :: "real \<Rightarrow> real \<Rightarrow> real option \<Rightarrow> margin_row" where
  "margin_of margin revenue costs =
     \<lparr>Service_Line = ''Audit'', Contribution_Margin_kNOK = margin, Total_Revenue_kNOK = revenue,
      Production_Costs_kNOK = costs, Budget_Contribution_Margin_kNOK = 0,
      Budget_Total_Revenue_kNOK = 0\<rparr>"

section \<open>Vectorised float arithmetic\<close>

text \<open>
  Columns computed with whole-column arithmetic hold IEEE floats: a division by zero does
  not raise, it yields an infinity or NaN.  Rounding and the sign of zero are not modelled.
\<close>

datatype npfloat = Fin real | PInf | NInf | NaN

fun np_sub :: "npfloat \<Rightarrow> npfloat \<Rightarrow> npfloat" where
  "np_sub (Fin a) (Fin b) = Fin (a - b)"
| "np_sub (Fin a) PInf = NInf"
| "np_sub (Fin a) NInf = PInf"
| "np_sub PInf (Fin b) = PInf"
| "np_sub PInf NInf = PInf"
| "np_sub NInf (Fin b) = NInf"
| "np_sub NInf PInf = NInf"
| "np_sub _ _ = NaN"

fun np_div :: "npfloat \<Rightarrow> npfloat \<Rightarrow> npfloat" where
  "np_div (Fin a) (Fin b) =
     (if b \<noteq> 0 then Fin (a / b) else if a > 0 then PInf else if a < 0 then NInf else NaN)"
| "np_div (Fin a) PInf = Fin 0"
| "np_div (Fin a) NInf = Fin 0"
| "np_div PInf (Fin b) = (if b < 0 then NInf else PInf)"
| "np_div NInf (Fin b) = (if b < 0 then PInf else NInf)"
| "np_div _ _ = NaN"

fun np_mul :: "npfloat \<Rightarrow> npfloat \<Rightarrow> npfloat" where
  "np_mul (Fin a) (Fin b) = Fin (a * b)"
| "np_mul PInf (Fin b) = (if b > 0 then PInf else if b < 0 then NInf else NaN)"
| "np_mul NInf (Fin b) = (if b > 0 then NInf else if b < 0 then PInf else NaN)"
| "np_mul (Fin a) PInf = (if a > 0 then PInf else if a < 0 then NInf else NaN)"
| "np_mul (Fin a) NInf = (if a > 0 then NInf else if a < 0 then PInf else NaN)"
| "np_mul PInf PInf = PInf"
| "np_mul PInf NInf = NInf"
| "np_mul NInf PInf = NInf"
| "np_mul NInf NInf = PInf"
| "np_mul _ _ = NaN"

text \<open>\<^verbatim>\<open>fillna(0)\<close> replaces NaN only; an infinity stays.\<close>

fun fillna0 :: "npfloat \<Rightarrow> npfloat" where
  "fillna0 NaN = Fin 0"
| "fillna0 x = x"

section \<open>Prompt7: service and role performance with month-over-month changes\<close>

record perf_row =
  pf_Service :: string
  pf_Year :: int
  pf_Month :: int
  pf_Role :: string
  pf_Billable_Hours :: real
  pf_Total_Hours :: real
  pf_Adjustments :: real
  pf_Total_Revenue :: real

text \<open>
  \<^verbatim>\<open>groupby([Service, Year, Month, Role]).agg(sum).reset_index()\<close>: one row per key, the
  keys in ascending order.
\<close>

definition perf_key :: "perf_row \<Rightarrow> string \<times> int \<times> int \<times> string" where
  "perf_key r = (pf_Service r, pf_Year r, pf_Month r, pf_Role r)"

definition perf_sum :: "perf_row list \<Rightarrow> string \<times> int \<times> int \<times> string \<Rightarrow> perf_row" where
  "perf_sum data k =
     (let members = filter (\<lambda>r. perf_key r = k) data
      in \<lparr>pf_Service = fst k, pf_Year = fst (snd k), pf_Month = fst (snd (snd k)),
          pf_Role = snd (snd (snd k)),
          pf_Billable_Hours = sum_list (map pf_Billable_Hours members),
          pf_Total_Hours = sum_list (map pf_Total_Hours members),
          pf_Adjustments = sum_list (map pf_Adjustments members),
          pf_Total_Revenue = sum_list (map pf_Total_Revenue members)\<rparr>)"

definition grouped_data :: "perf_row list \<Rightarrow> perf_row list" where
  "grouped_data data = map (perf_sum data) (sort (unique (map perf_key data)))"

definition Billing_Rate_pct :: "perf_row \<Rightarrow> npfloat" where
  "Billing_Rate_pct g = np_mul (np_div (Fin (pf_Billable_Hours g)) (Fin (pf_Total_Hours g))) (Fin 100)"

definition Hourly_Rate :: "perf_row \<Rightarrow> npfloat" where
  "Hourly_Rate g = np_div (Fin (pf_Total_Revenue g)) (Fin (pf_Total_Hours g))"

definition Adjustments_col :: "perf_row \<Rightarrow> npfloat" where
  "Adjustments_col g = Fin (pf_Adjustments g)"

text \<open>
  \<^verbatim>\<open>groupby([Service, Role, Year])[col].shift(1)\<close>: for every row the value of the row
  before it within its group, NaN for a group's first row.  \<open>seen\<close> holds the rows
  already passed, the latest first.
\<close>

definition role_year :: "perf_row \<Rightarrow> string \<times> string \<times> int" where
  "role_year g = (pf_Service g, pf_Role g, pf_Year g)"

fun shift1 :: "(perf_row \<Rightarrow> npfloat) \<Rightarrow> perf_row list \<Rightarrow> perf_row list \<Rightarrow> npfloat list" where
  "shift1 col seen [] = []"
| "shift1 col seen (g # gs) =
     (case find (\<lambda>s. role_year s = role_year g) seen of
        None \<Rightarrow> NaN
      | Some s \<Rightarrow> col s) # shift1 col (g # seen) gs"

text \<open>\<^verbatim>\<open>((col - prev) / prev) * 100\<close>, then \<^verbatim>\<open>fillna(0)\<close>.\<close>

definition mom_change :: "npfloat \<Rightarrow> npfloat \<Rightarrow> npfloat" where
  "mom_change cur prev = fillna0 (np_mul (np_div (np_sub cur prev) prev) (Fin 100))"

definition mom_column :: "(perf_row \<Rightarrow> npfloat) \<Rightarrow> perf_row list \<Rightarrow> npfloat list" where
  "mom_column col groups = map2 mom_change (map col groups) (shift1 col [] groups)"

record role_performance =
  rp_Service :: string
  rp_Year :: int
  rp_Month :: int
  rp_Role :: string
  rp_Billing_Rate :: npfloat
  rp_MoM_Billing_Rate :: npfloat
  rp_Adjustments :: npfloat
  rp_MoM_Adjustments :: npfloat
  rp_Hourly_Rate :: npfloat
  rp_MoM_Hourly_Rate :: npfloat

definition analyze_service_and_role_performance :: "perf_row list \<Rightarrow> role_performance list" where
  "analyze_service_and_role_performance data =
     (let groups = grouped_data data
      in map (\<lambda>(g, mb, ma, mh).
                \<lparr>rp_Service = pf_Service g, rp_Year = pf_Year g, rp_Month = pf_Month g,
                 rp_Role = pf_Role g,
                 rp_Billing_Rate = Billing_Rate_pct g, rp_MoM_Billing_Rate = mb,
                 rp_Adjustments = Adjustments_col g, rp_MoM_Adjustments = ma,
                 rp_Hourly_Rate = Hourly_Rate g, rp_MoM_Hourly_Rate = mh\<rparr>)
           (zip groups
              (zip (mom_column Billing_Rate_pct groups)
                 (zip (mom_column Adjustments_col groups) (mom_column Hourly_Rate groups)))))"

definition perf_of :: "int \<Rightarrow> real \<Rightarrow> real \<Rightarrow> real \<Rightarrow> real \<Rightarrow> perf_row" where
  "perf_of month billable hours adjustments revenue =
     \<lparr>pf_Service = ''Audit'', pf_Year = 2023, pf_Month = month, pf_Role = ''Senior'',
      pf_Billable_Hours = billable, pf_Total_Hours = hours, pf_Adjustments = adjustments,
      pf_Total_Revenue = revenue\<rparr>"

section \<open>Prompt8: employees below the median hourly rate\<close>

record employee_row =
  em_Cost_Center :: string
  em_Role :: string
  em_Service :: string
  em_Employee_ID :: string
  em_Year :: int
  em_Month :: int
  em_Total_Revenue :: real
  em_Total_Hours :: real

text \<open>\<^verbatim>\<open>if year:\<close> holds for a number other than 0 and fails for \<^verbatim>\<open>None\<close> and for 0.\<close>

definition truthy :: "int option \<Rightarrow> bool" where
  "truthy v = (case v of None \<Rightarrow> False | Some n \<Rightarrow> n \<noteq> 0)"

definition restrict_period :: "int option \<Rightarrow> int option \<Rightarrow> employee_row list \<Rightarrow> employee_row list" where
  "restrict_period year month rows =
     (let by_year = (if truthy year then filter (\<lambda>r. Some (em_Year r) = year) rows else rows)
      in if truthy month then filter (\<lambda>r. Some (em_Month r) = month) by_year else by_year)"

text \<open>\<^verbatim>\<open>revenue / hours if hours > 0 else None\<close>: a missing rate is \<open>None\<close>.\<close>

definition hourly_rate :: "real \<Rightarrow> real \<Rightarrow> real option" where
  "hourly_rate revenue hours = (if hours > 0 then Some (revenue / hours) else None)"

text \<open>\<^verbatim>\<open>groupby('Employee ID').agg(sum)\<close> with the rate of each employee.\<close>

definition employee_rates :: "employee_row list \<Rightarrow> (string \<times> real option) list" where
  "employee_rates rows =
     map (\<lambda>e. let members = filter (\<lambda>r. em_Employee_ID r = e) rows
               in (e, hourly_rate (sum_list (map em_Total_Revenue members))
                        (sum_list (map em_Total_Hours members))))
       (sort (unique (map em_Employee_ID rows)))"

text \<open>\<^verbatim>\<open>dropna()\<close> and \<^verbatim>\<open>median()\<close>; the median of no value is missing.\<close>

definition dropna :: "real option list \<Rightarrow> real list" where
  "dropna cells = concat (map (\<lambda>c. case c of None \<Rightarrow> [] | Some v \<Rightarrow> [v]) cells)"

definition median :: "real list \<Rightarrow> real option" where
  "median xs =
     (let s = sort xs; n = length s
      in if n = 0 then None
         else if odd n then Some (s ! (n div 2))
         else Some ((s ! (n div 2 - 1) + s ! (n div 2)) / 2))"

text \<open>\<^verbatim>\<open><\<close> on a column: false wherever a side is missing.\<close>

definition nan_less :: "real option \<Rightarrow> real option \<Rightarrow> bool" where
  "nan_less a b = (case (a, b) of (Some x, Some y) \<Rightarrow> x < y | _ \<Rightarrow> False)"

definition analyze_below_median_employees ::
  "employee_row list \<Rightarrow> string \<Rightarrow> string \<Rightarrow> int option \<Rightarrow> int option \<Rightarrow>
     (string \<times> real option) list option" where
  "analyze_below_median_employees data cost_center role year month =
     (let filtered_data =
            restrict_period year month
              (filter (\<lambda>r. em_Cost_Center r = cost_center \<and> em_Role r = role) data)
      in case filtered_data of
           [] \<Rightarrow> None
         | first # _ \<Rightarrow>
             (let service_line = em_Service first;
                  service_line_role_data =
                    restrict_period year month
                      (filter (\<lambda>r. em_Service r = service_line \<and> em_Role r = role) data);
                  median_hourly_rate =
                    median (dropna (map snd (employee_rates service_line_role_data)))
              in Some (filter (\<lambda>(e, rate). nan_less rate median_hourly_rate)
                         (employee_rates filtered_data))))"

definition employee_of :: "string \<Rightarrow> real \<Rightarrow> real \<Rightarrow> employee_row" where
  "employee_of e revenue hours =
     \<lparr>em_Cost_Center = ''CC1'', em_Role = ''Senior'', em_Service = ''Audit'', em_Employee_ID = e,
      em_Year = 2023, em_Month = 1, em_Total_Revenue = revenue, em_Total_Hours = hours\<rparr>"

section \<open>Prompt5: outliers by the interquartile range\<close>

text \<open>
  \<^verbatim>\<open>Series.quantile(q)\<close> with the default linear interpolation: on the sorted values
  \<open>s\<close> of length \<open>n\<close> the quantile sits at the position \<open>h = (n - 1) * q\<close>, between
  the values at \<open>\<lfloor>h\<rfloor>\<close> and the next index.  The quantile of no value is missing.
\<close>

definition interpolate :: "real list \<Rightarrow> real \<Rightarrow> real" where
  "interpolate s h =
     (let i = nat \<lfloor>h\<rfloor>; j = min (i + 1) (length s - 1)
      in s ! i + (s ! j - s ! i) * (h - real i))"

definition quantile :: "real \<Rightarrow> real list \<Rightarrow> real option" where
  "quantile q xs =
     (if xs = [] then None else Some (interpolate (sort xs) (real (length xs - 1) * q)))"

datatype outlier_type = High | Low

text \<open>
  \<^verbatim>\<open>np.where(v < lower, 'Low', np.where(v > upper, 'High', None))\<close>; a comparison with a
  missing bound is false.
\<close>

definition outlier_label :: "real \<Rightarrow> real \<Rightarrow> real \<Rightarrow> outlier_type option" where
  "outlier_label lower_bound upper_bound v =
     (if v < lower_bound then Some Low else if v > upper_bound then Some High else None)"

definition detect_outliers_iqr :: "('r \<Rightarrow> real) \<Rightarrow> 'r list \<Rightarrow> ('r \<times> outlier_type option) list" where
  "detect_outliers_iqr column data =
     (case (quantile (1 / 4) (map column data), quantile (3 / 4) (map column data)) of
        (Some Q1, Some Q3) \<Rightarrow>
          (let IQR = Q3 - Q1;
               lower_bound = Q1 - 1.5 * IQR;
               upper_bound = Q3 + 1.5 * IQR
           in map (\<lambda>r. (r, outlier_label lower_bound upper_bound (column r)))
                (filter (\<lambda>r. column r < lower_bound \<or> column r > upper_bound) data))
      | _ \<Rightarrow> [])"

section \<open>Prompt6: outliers above mean plus a multiple of the standard deviation\<close>

record task_row =
  tk_Service :: string
  tk_Year :: int
  tk_Month :: int
  tk_Role :: string
  tk_Task :: string
  tk_Employee :: string
  tk_Billable_Hours :: real

text \<open>
  \<^verbatim>\<open>groupby(keys)\<close>: the groups in ascending order of their key, each with its rows in
  frame order.
\<close>

definition groupby :: "('r \<Rightarrow> 'k::linorder) \<Rightarrow> 'r list \<Rightarrow> ('k \<times> 'r list) list" where
  "groupby key rows =
     map (\<lambda>k. (k, filter (\<lambda>r. key r = k) rows)) (sort (unique (map key rows)))"

text \<open>
  \<^verbatim>\<open>Series.mean()\<close> and \<^verbatim>\<open>Series.std()\<close>.  The standard deviation is the sample one
  (divisor \<open>n - 1\<close>); it is missing for fewer than two values, as the mean is for none.
\<close>

definition series_mean :: "real list \<Rightarrow> real option" where
  "series_mean xs = (if xs = [] then None else Some (sum_list xs / real (length xs)))"

definition series_std :: "real list \<Rightarrow> real option" where
  "series_std xs =
     (if length xs < 2 then None
      else (let m = sum_list xs / real (length xs)
            in Some (sqrt (sum_list (map (\<lambda>x. (x - m)\<^sup>2) xs) / real (length xs - 1)))))"

text \<open>\<^verbatim>\<open>task_mean + threshold_multiplier * task_std\<close>; missing when a term is.\<close>

definition task_threshold :: "real \<Rightarrow> real list \<Rightarrow> real option" where
  "task_threshold threshold_multiplier hours =
     (case (series_mean hours, series_std hours) of
        (Some task_mean, Some task_std) \<Rightarrow> Some (task_mean + threshold_multiplier * task_std)
      | _ \<Rightarrow> None)"

text \<open>
  The rows of one task whose hours exceed the threshold; \<^verbatim>\<open>>\<close> against a missing
  threshold is false.
\<close>

definition task_outliers :: "real \<Rightarrow> task_row list \<Rightarrow> task_row list" where
  "task_outliers threshold_multiplier task_data =
     (case task_threshold threshold_multiplier (map tk_Billable_Hours task_data) of
        None \<Rightarrow> []
      | Some threshold \<Rightarrow> filter (\<lambda>r. tk_Billable_Hours r > threshold) task_data)"

text \<open>The monthly pass: hours summed per employee and task, then one report per group.\<close>

definition employee_task_key :: "task_row \<Rightarrow> string \<times> int \<times> int \<times> string \<times> string \<times> string" where
  "employee_task_key r =
     (tk_Service r, tk_Year r, tk_Month r, tk_Role r, tk_Task r, tk_Employee r)"

definition data_aggregated_monthly :: "task_row list \<Rightarrow> task_row list" where
  "data_aggregated_monthly data =
     map (\<lambda>(k, members).
            \<lparr>tk_Service = fst k, tk_Year = fst (snd k), tk_Month = fst (snd (snd k)),
             tk_Role = fst (snd (snd (snd k))), tk_Task = fst (snd (snd (snd (snd k)))),
             tk_Employee = snd (snd (snd (snd (snd k)))),
             tk_Billable_Hours = sum_list (map tk_Billable_Hours members)\<rparr>)
       (groupby employee_task_key data)"

definition identify_outliers_monthly ::
  "real \<Rightarrow> task_row list \<Rightarrow> ((string \<times> string \<times> int \<times> int) \<times> task_row list) list" where
  "identify_outliers_monthly threshold_multiplier data =
     filter (\<lambda>(g, summaries). summaries \<noteq> [])
       (map (\<lambda>(g, group_data).
               (g, concat (map (\<lambda>(task, task_data). task_outliers threshold_multiplier task_data)
                             (groupby tk_Task group_data))))
          (groupby (\<lambda>r. (tk_Service r, tk_Role r, tk_Year r, tk_Month r))
             (data_aggregated_monthly data)))"

definition task_of :: "string \<Rightarrow> real \<Rightarrow> task_row" where
  "task_of employee hours =
     \<lparr>tk_Service = ''Audit'', tk_Year = 2023, tk_Month = 1, tk_Role = ''Senior'',
      tk_Task = ''Review'', tk_Employee = employee, tk_Billable_Hours = hours\<rparr>"

section \<open>Prompt3 and Prompt4: top and bottom entities\<close>

text \<open>
  Both scripts sum the ranking metric per entity, order the rows of a partition with
  \<^verbatim>\<open>sort_values\<close> and keep the first rows with \<^verbatim>\<open>head(n)\<close>.  The order that the
  library gives to rows with equal values is not modelled; \<open>in_order\<close> says that a
  column is in the requested direction.
\<close>

definition in_order :: "bool \<Rightarrow> real list \<Rightarrow> bool" where
  "in_order ascending vs = (if ascending then sorted vs else sorted_wrt (\<lambda>a b. b \<le> a) vs)"

text \<open>Prompt3: the margin summed per project, per month and per year.\<close>

record project_row =
  pj_Year :: int
  pj_Service :: string
  pj_Month :: int
  pj_Project :: string
  pj_Margin :: real

definition project_key :: "project_row \<Rightarrow> int \<times> string \<times> int \<times> string" where
  "project_key r = (pj_Year r, pj_Service r, pj_Month r, pj_Project r)"

definition aggregated_data :: "project_row list \<Rightarrow> project_row list" where
  "aggregated_data data =
     map (\<lambda>(k, members).
            \<lparr>pj_Year = fst k, pj_Service = fst (snd k), pj_Month = fst (snd (snd k)),
             pj_Project = snd (snd (snd k)), pj_Margin = sum_list (map pj_Margin members)\<rparr>)
       (groupby project_key data)"

definition monthly_data :: "project_row list \<Rightarrow> int \<Rightarrow> string \<Rightarrow> int \<Rightarrow> project_row list" where
  "monthly_data data year service_line month =
     filter (\<lambda>r. pj_Month r = month)
       (filter (\<lambda>r. pj_Service r = service_line)
          (filter (\<lambda>r. pj_Year r = year) (aggregated_data data)))"

text \<open>The yearly rows keep no month; the field is set to 0 in the model.\<close>

definition yearly_aggregated_data :: "project_row list \<Rightarrow> project_row list" where
  "yearly_aggregated_data data =
     map (\<lambda>(k, members).
            \<lparr>pj_Year = fst k, pj_Service = fst (snd k), pj_Month = 0,
             pj_Project = snd (snd k), pj_Margin = sum_list (map pj_Margin members)\<rparr>)
       (groupby (\<lambda>r. (pj_Year r, pj_Service r, pj_Project r)) (aggregated_data data))"

definition yearly_service_data :: "project_row list \<Rightarrow> int \<Rightarrow> string \<Rightarrow> project_row list" where
  "yearly_service_data data year service_line =
     filter (\<lambda>r. pj_Year r = year \<and> pj_Service r = service_line) (yearly_aggregated_data data)"

text \<open>Prompt4: the cost summed per task within one role's rows, the costliest first.\<close>

record cost_row =
  cs_Task :: string
  cs_Cost :: real

definition task_costs :: "cost_row list \<Rightarrow> cost_row list" where
  "task_costs role_data =
     map (\<lambda>(task, members). \<lparr>cs_Task = task, cs_Cost = sum_list (map cs_Cost members)\<rparr>)
       (groupby cs_Task role_data)"

definition project_of :: "string \<Rightarrow> real \<Rightarrow> project_row" where
  "project_of project margin =
     \<lparr>pj_Year = 2023, pj_Service = ''Audit'', pj_Month = 1, pj_Project = project,
      pj_Margin = margin\<rparr>"

text \<open>
  The whole run of Prompt1.  For every year and every service line of that year the script
  computes the yearly summary, the quarterly and half-yearly buckets and the monthly
  buckets; the report is written at the end.  An exception in a monthly loop ends the run
  there, and nothing is written.
\<close>

record group_report =
  gr_Year :: int
  gr_Service :: string
  gr_yearly :: summary
  gr_quarters :: "(string option \<times> summary) list"
  gr_half_years :: "(string option \<times> summary) list"
  gr_months :: "(int \<times> string \<times> summary) list"

definition service_report :: "fact_row list \<Rightarrow> int \<Rightarrow> string \<Rightarrow> error + group_report" where
  "service_report df year service =
     (let sdf = service_df df year service
      in case monthly_summaries sdf of
           Inl e \<Rightarrow> Inl e
         | Inr months \<Rightarrow>
             Inr \<lparr>gr_Year = year, gr_Service = service, gr_yearly = summarize sdf,
                  gr_quarters = period_summaries get_quarter sdf,
                  gr_half_years = period_summaries get_half_year sdf,
                  gr_months = months\<rparr>)"

definition year_service_groups :: "fact_row list \<Rightarrow> (int \<times> string) list" where
  "year_service_groups df =
     concat (map (\<lambda>year. map (\<lambda>service. (year, service))
                              (unique (map Service_Areas_Shortname (yearly_df df year))))
               (unique (map Year df)))"

fun report_loop :: "fact_row list \<Rightarrow> (int \<times> string) list \<Rightarrow> error + group_report list" where
  "report_loop df [] = Inr []"
| "report_loop df ((year, service) # groups) =
     (case service_report df year service of
        Inl e \<Rightarrow> Inl e
      | Inr g \<Rightarrow>
          (case report_loop df groups of
             Inl e \<Rightarrow> Inl e
           | Inr rest \<Rightarrow> Inr (g # rest)))"

definition run_report :: "fact_row list \<Rightarrow> error + group_report list" where
  "run_report df = report_loop df (year_service_groups df)"

section \<open>Facts about the common operations\<close>

lemma set_unique: "set (unique xs) = set xs"
  by (induction xs rule: unique.induct) auto

lemma distinct_unique: "distinct (unique xs)"
  by (induction xs rule: unique.induct) (auto simp: set_unique)

lemma sum_skipna_append: "sum_skipna col (xs @ ys) = sum_skipna col xs + sum_skipna col ys"
  by (simp add: sum_skipna_def)

text \<open>
  Splitting a frame by a key: the rows that carry the key \<open>k\<close> and the rows that do not
  add up to the frame, whatever the column.
\<close>

lemma sum_skipna_split:
  "sum_skipna col (filter (\<lambda>r. key r = k) df) + sum_skipna col (filter (\<lambda>r. key r \<noteq> k) df)
     = sum_skipna col df"
  by (induction df) (auto simp: sum_skipna_def)

lemma filter_key_after_drop:
  "k' \<noteq> k \<Longrightarrow> filter (\<lambda>r. key r = k') (filter (\<lambda>r. key r \<noteq> k) df) = filter (\<lambda>r. key r = k') df"
  by (induction df) auto

lemma unique_map_Cons:
  "unique (map key (r # rs)) = key r # unique (map key (filter (\<lambda>r'. key r' \<noteq> key r) rs))"
  by (simp add: filter_map comp_def)

lemma sum_over_unique_keys:
  "(\<Sum>k \<leftarrow> unique (map key df). sum_skipna col (filter (\<lambda>r. key r = k) df)) = sum_skipna col df"
proof (induction df rule: length_induct)
  case (1 df)
  show ?case
  proof (cases df)
    case Nil
    then show ?thesis by (simp add: sum_skipna_def)
  next
    case (Cons r rs)
    let ?rest = "filter (\<lambda>r'. key r' \<noteq> key r) rs"
    have shorter: "length ?rest < length df"
      using Cons by (simp add: less_Suc_eq_le)
    have other: "filter (\<lambda>r'. key r' = k) df = filter (\<lambda>r'. key r' = k) ?rest"
      if "k \<in> set (unique (map key ?rest))" for k
    proof -
      from that have "k \<noteq> key r" by (auto simp: set_unique)
      then show ?thesis
        using Cons filter_key_after_drop [of k "key r" key rs] by auto
    qed
    have "(\<Sum>k \<leftarrow> unique (map key ?rest). sum_skipna col (filter (\<lambda>r'. key r' = k) df))
        = (\<Sum>k \<leftarrow> unique (map key ?rest). sum_skipna col (filter (\<lambda>r'. key r' = k) ?rest))"
      by (rule arg_cong [where f = sum_list], rule map_cong) (simp_all add: other)
    also have "\<dots> = sum_skipna col ?rest"
      using "1.IH" shorter by blast
    finally have rest: "(\<Sum>k \<leftarrow> unique (map key ?rest). sum_skipna col (filter (\<lambda>r'. key r' = k) df))
        = sum_skipna col ?rest" .
    have drop: "filter (\<lambda>r'. key r' \<noteq> key r) df = ?rest"
      unfolding Cons by simp
    have whole: "sum_skipna col (filter (\<lambda>r'. key r' = key r) df) + sum_skipna col ?rest
        = sum_skipna col df"
      using sum_skipna_split [of col key "key r" df] unfolding drop .
    have keys: "unique (map key df) = key r # unique (map key ?rest)"
      unfolding Cons by (rule unique_map_Cons)
    have "(\<Sum>k \<leftarrow> unique (map key df). sum_skipna col (filter (\<lambda>r'. key r' = k) df))
        = sum_skipna col (filter (\<lambda>r'. key r' = key r) df)
          + (\<Sum>k \<leftarrow> unique (map key ?rest). sum_skipna col (filter (\<lambda>r'. key r' = k) df))"
      unfolding keys by (simp only: list.map sum_list.Cons)
    then show ?thesis
      using rest whole by linarith
  qed
qed

section \<open>Prompt1: the roll-up of monthly buckets\<close>

lemma mset_split_key:
  "mset (filter (\<lambda>r. key r = k) df) + mset (filter (\<lambda>r. key r \<noteq> k) df) = mset df"
  by (induction df) auto

lemma mset_over_unique_keys:
  "mset (concat (map (\<lambda>k. filter (\<lambda>r. key r = k) df) (unique (map key df)))) = mset df"
proof (induction df rule: length_induct)
  case (1 df)
  show ?case
  proof (cases df)
    case Nil
    then show ?thesis by simp
  next
    case (Cons r rs)
    let ?rest = "filter (\<lambda>r'. key r' \<noteq> key r) rs"
    have shorter: "length ?rest < length df"
      using Cons by (simp add: less_Suc_eq_le)
    have other: "filter (\<lambda>r'. key r' = k) df = filter (\<lambda>r'. key r' = k) ?rest"
      if "k \<in> set (unique (map key ?rest))" for k
    proof -
      from that have "k \<noteq> key r" by (auto simp: set_unique)
      then show ?thesis
        using Cons filter_key_after_drop [of k "key r" key rs] by auto
    qed
    have "mset (concat (map (\<lambda>k. filter (\<lambda>r'. key r' = k) df) (unique (map key ?rest))))
        = mset (concat (map (\<lambda>k. filter (\<lambda>r'. key r' = k) ?rest) (unique (map key ?rest))))"
      by (rule arg_cong [where f = "\<lambda>xs. mset (concat xs)"], rule map_cong) (simp_all add: other)
    also have "\<dots> = mset ?rest"
      using "1.IH" shorter by blast
    finally have rest: "mset (concat (map (\<lambda>k. filter (\<lambda>r'. key r' = k) df) (unique (map key ?rest))))
        = mset ?rest" .
    have drop: "filter (\<lambda>r'. key r' \<noteq> key r) df = ?rest"
      unfolding Cons by simp
    have whole: "mset (filter (\<lambda>r'. key r' = key r) df) + mset ?rest = mset df"
      using mset_split_key [of key "key r" df] unfolding drop .
    have keys: "unique (map key df) = key r # unique (map key ?rest)"
      unfolding Cons by (rule unique_map_Cons)
    have "mset (concat (map (\<lambda>k. filter (\<lambda>r'. key r' = k) df) (unique (map key df))))
        = mset (filter (\<lambda>r'. key r' = key r) df)
          + mset (concat (map (\<lambda>k. filter (\<lambda>r'. key r' = k) df) (unique (map key ?rest))))"
      unfolding keys by (simp only: list.map concat.simps mset_append)
    then show ?thesis
      using rest whole by simp
  qed
qed

lemma monthly_loop_completes:
  "\<forall>m \<in> set months. - 13 \<le> m \<and> m \<le> 12 \<Longrightarrow> \<exists>bs. monthly_loop sdf months = Inr bs"
  by (induction months) (auto simp: month_name_def)

lemma monthly_loop_months:
  "monthly_loop sdf months = Inr bs \<Longrightarrow>
     map (\<lambda>(month, name, s). (month, s)) bs = map (\<lambda>m. (m, summarize (month_df sdf m))) months"
  by (induction months arbitrary: bs) (auto split: sum.splits)

lemma bucket_total_monthly:
  assumes "monthly_loop sdf months = Inr bs"
  shows "bucket_total field bs = (\<Sum>m \<leftarrow> months. field (summarize (month_df sdf m)))"
proof -
  have "map (\<lambda>(month, name, s). field s) bs = map (\<lambda>(m, s). field s) (map (\<lambda>(month, name, s). (month, s)) bs)"
    by (simp add: case_prod_unfold)
  also have "\<dots> = map (\<lambda>m. field (summarize (month_df sdf m))) months"
    unfolding monthly_loop_months [OF assms] by simp
  finally show ?thesis by (simp add: bucket_total_def)
qed

lemma bucket_rows_monthly:
  assumes "monthly_loop sdf months = Inr bs"
  shows "map (\<lambda>(month, name, s). month_df sdf month) bs = map (month_df sdf) months"
proof -
  have "map (\<lambda>(month, name, s). month_df sdf month) bs
      = map (\<lambda>(m, s). month_df sdf m) (map (\<lambda>(month, name, s). (month, s)) bs)"
    by (simp add: case_prod_unfold)
  also have "\<dots> = map (month_df sdf) months"
    unfolding monthly_loop_months [OF assms] by (simp add: comp_def)
  finally show ?thesis .
qed

text \<open>
  Claim C1 (roll-up invariant).  For every frame, year and service line, whenever the monthly
  loop of Prompt1 completes, each summed measure (billable, total and utilized hours) of the
  monthly buckets adds up to the year-level measure of that service line, and the monthly
  buckets hold every row of the service line exactly once.  The loop completes whenever
  every month is an index of the calendar's name table.
\<close>

theorem rollup_invariant:
  fixes df :: "fact_row list" and year :: int and service :: string
  defines "sdf \<equiv> service_df df year service"
  shows "(monthly_summaries sdf = Inr buckets \<longrightarrow>
           bucket_total total_billable_hours buckets = total_billable_hours (summarize sdf) \<and>
           bucket_total total_hours buckets = total_hours (summarize sdf) \<and>
           bucket_total utilized_hours buckets = utilized_hours (summarize sdf) \<and>
           mset (concat (map (\<lambda>(month, name, s). month_df sdf month) buckets)) = mset sdf) \<and>
         ((\<forall>r \<in> set sdf. - 13 \<le> Month r \<and> Month r \<le> 12) \<longrightarrow>
           (\<exists>bs. monthly_summaries sdf = Inr bs))"
proof (intro conjI impI)
  assume "\<forall>r \<in> set sdf. - 13 \<le> Month r \<and> Month r \<le> 12"
  then have "\<forall>m \<in> set (unique (map Month sdf)). - 13 \<le> m \<and> m \<le> 12"
    by (auto simp: set_unique)
  then show "\<exists>bs. monthly_summaries sdf = Inr bs"
    unfolding monthly_summaries_def by (rule monthly_loop_completes)
next
  assume run: "monthly_summaries sdf = Inr buckets"
  then have loop: "monthly_loop sdf (unique (map Month sdf)) = Inr buckets"
    by (simp add: monthly_summaries_def)
  show "bucket_total total_billable_hours buckets = total_billable_hours (summarize sdf)"
    using sum_over_unique_keys [where key = Month and df = sdf and col = Billable_Hours]
    by (simp add: bucket_total_monthly [OF loop] summarize_def month_df_def Let_def)
  show "bucket_total total_hours buckets = total_hours (summarize sdf)"
    using sum_over_unique_keys [where key = Month and df = sdf and col = Total_Hours]
    by (simp add: bucket_total_monthly [OF loop] summarize_def month_df_def Let_def)
  show "bucket_total utilized_hours buckets = utilized_hours (summarize sdf)"
    using sum_over_unique_keys [where key = Month and df = sdf and col = Utilized_Hours]
    by (simp add: bucket_total_monthly [OF loop] summarize_def month_df_def Let_def)
  show "mset (concat (map (\<lambda>(month, name, s). month_df sdf month) buckets)) = mset sdf"
    unfolding bucket_rows_monthly [OF loop]
    using mset_over_unique_keys [where key = Month and df = sdf]
    by (simp add: month_df_def [abs_def])
qed

lemma demo_monthly:
  "monthly_summaries (service_df demo_rows 2023 ''Audit'') =
     Inr [(1, ''January'', \<lparr>total_billable_hours = 50, total_hours = 60, utilized_hours = 55,
            billing_rate_avg = 250 / 3, utilization_rate_avg = 275 / 3\<rparr>),
          (2, ''February'', \<lparr>total_billable_hours = 10, total_hours = 40, utilized_hours = 0,
            billing_rate_avg = 25, utilization_rate_avg = 0\<rparr>)]"
  by (simp add: monthly_summaries_def service_df_def yearly_df_def demo_rows_def month_name_def
      month_names_def month_df_def summarize_def sum_skipna_def nan_to_zero_def rate_pct_def)

theorem rollup_invariant_witness:
  "monthly_summaries (service_df demo_rows 2023 ''Audit'') =
     Inr [(1, ''January'', \<lparr>total_billable_hours = 50, total_hours = 60, utilized_hours = 55,
            billing_rate_avg = 250 / 3, utilization_rate_avg = 275 / 3\<rparr>),
          (2, ''February'', \<lparr>total_billable_hours = 10, total_hours = 40, utilized_hours = 0,
            billing_rate_avg = 25, utilization_rate_avg = 0\<rparr>)] \<and>
   total_billable_hours (summarize (service_df demo_rows 2023 ''Audit'')) = 50 + 10 \<and>
   total_hours (summarize (service_df demo_rows 2023 ''Audit'')) = 60 + 40 \<and>
   utilized_hours (summarize (service_df demo_rows 2023 ''Audit'')) = 55 + 0"
  using rollup_invariant [of demo_rows 2023 "''Audit''", THEN conjunct1, rule_format, OF demo_monthly]
  by (simp add: demo_monthly bucket_total_def)

section \<open>Prompt1: months outside 1..12\<close>

lemma get_quarter_None: "get_quarter month = None \<longleftrightarrow> month < 1 \<or> 12 < month"
  unfolding get_quarter_def by (simp split: if_splits) presburger

lemma period_df_quarter_valid:
  "r \<in> set (period_df get_quarter sdf period) \<Longrightarrow> 1 \<le> Month r \<and> Month r \<le> 12"
  using get_quarter_None [of "Month r"]
  by (auto simp: period_df_def label_eq_def split: option.splits)

section \<open>Prompt1: rates from aggregated totals\<close>

lemma billing_rate_summarize:
  "billing_rate_avg (summarize df) =
     rate_pct (sum_skipna Billable_Hours df) (sum_skipna Total_Hours df)"
  by (simp add: summarize_def Let_def)

text \<open>
  Claim C3, as amended.  For a group with positive total hours the billing rate is the
  quotient of the summed billable hours and the summed total hours, times 100.  For a group
  of two rows with positive, unequal total hours and unequal per-row rates it differs from
  the arithmetic mean of the per-row rates.  The grouped rows of Prompt7 follow the same
  rule: with positive summed total hours the rate is the quotient of the two sums, times 100.
\<close>

theorem billing_rate_from_totals:
  "(0 < sum_skipna Total_Hours df \<longrightarrow>
      billing_rate_avg (summarize df) =
        sum_skipna Billable_Hours df / sum_skipna Total_Hours df * 100) \<and>
   (0 < pf_Total_Hours (perf_sum data k) \<longrightarrow>
      Billing_Rate_pct (perf_sum data k) =
        Fin (sum_list (map pf_Billable_Hours (filter (\<lambda>r. perf_key r = k) data)) /
             sum_list (map pf_Total_Hours (filter (\<lambda>r. perf_key r = k) data)) * 100)) \<and>
   (Total_Hours r1 = Some t1 \<and> Total_Hours r2 = Some t2 \<and> 0 < t1 \<and> 0 < t2 \<and> t1 \<noteq> t2 \<and>
    row_billing_rate r1 \<noteq> row_billing_rate r2 \<longrightarrow>
      billing_rate_avg (summarize [r1, r2]) \<noteq> mean_row_billing_rate [r1, r2])"
proof (intro conjI impI)
  assume "0 < sum_skipna Total_Hours df"
  then show "billing_rate_avg (summarize df) =
      sum_skipna Billable_Hours df / sum_skipna Total_Hours df * 100"
    by (simp add: billing_rate_summarize rate_pct_def)
next
  assume "0 < pf_Total_Hours (perf_sum data k)"
  then show "Billing_Rate_pct (perf_sum data k) =
      Fin (sum_list (map pf_Billable_Hours (filter (\<lambda>r. perf_key r = k) data)) /
           sum_list (map pf_Total_Hours (filter (\<lambda>r. perf_key r = k) data)) * 100)"
    by (simp add: Billing_Rate_pct_def perf_sum_def Let_def)
next
  assume h: "Total_Hours r1 = Some t1 \<and> Total_Hours r2 = Some t2 \<and> 0 < t1 \<and> 0 < t2 \<and> t1 \<noteq> t2 \<and>
    row_billing_rate r1 \<noteq> row_billing_rate r2"
  define b1 where "b1 = nan_to_zero (Billable_Hours r1)"
  define b2 where "b2 = nan_to_zero (Billable_Hours r2)"
  have rate1: "row_billing_rate r1 = b1 / t1 * 100"
    using h by (simp add: row_billing_rate_def billing_rate_summarize rate_pct_def
        sum_skipna_def nan_to_zero_def b1_def)
  have rate2: "row_billing_rate r2 = b2 / t2 * 100"
    using h by (simp add: row_billing_rate_def billing_rate_summarize rate_pct_def
        sum_skipna_def nan_to_zero_def b2_def)
  have agg: "billing_rate_avg (summarize [r1, r2]) = (b1 + b2) / (t1 + t2) * 100"
    using h by (simp add: billing_rate_summarize rate_pct_def sum_skipna_def nan_to_zero_def
        b1_def b2_def)
  have mean: "mean_row_billing_rate [r1, r2] = (b1 / t1 * 100 + b2 / t2 * 100) / 2"
    by (simp add: mean_row_billing_rate_def rate1 rate2)
  have ne: "b1 * t2 \<noteq> b2 * t1"
    using h rate1 rate2 by (auto simp: field_simps)
  show "billing_rate_avg (summarize [r1, r2]) \<noteq> mean_row_billing_rate [r1, r2]"
  proof
    assume "billing_rate_avg (summarize [r1, r2]) = mean_row_billing_rate [r1, r2]"
    then have "(b1 + b2) / (t1 + t2) * 100 = (b1 / t1 * 100 + b2 / t2 * 100) / 2"
      by (simp only: agg mean)
    then have "2 * (b1 + b2) * (t1 * t2) = (b1 * t2 + b2 * t1) * (t1 + t2)"
      using h by (simp add: field_simps)
    then have "(b1 * t2 - b2 * t1) * (t1 - t2) = 0"
      by (simp add: algebra_simps)
    then show False
      using ne h by simp
  qed
qed

theorem billing_rate_from_totals_witness:
  "(0::real) < sum_skipna Total_Hours [hours_row 1 9 10, hours_row 2 15 30] \<and>
   billing_rate_avg (summarize [hours_row 1 9 10, hours_row 2 15 30]) = 60 \<and>
   mean_row_billing_rate [hours_row 1 9 10, hours_row 2 15 30] = 70 \<and>
   billing_rate_avg (summarize [hours_row 1 9 10, hours_row 2 15 30])
     \<noteq> mean_row_billing_rate [hours_row 1 9 10, hours_row 2 15 30] \<and>
   Billing_Rate_pct
     (perf_sum [perf_of 1 9 10 0 900, perf_of 1 15 30 0 900] (''Audit'', 2023, 1, ''Senior''))
     = Fin 60"
  using billing_rate_from_totals [where df = "[hours_row 1 9 10, hours_row 2 15 30]"
      and ?r1.0 = "hours_row 1 9 10" and ?t1.0 = 10 and ?r2.0 = "hours_row 2 15 30"
      and ?t2.0 = 30 and data = "[perf_of 1 9 10 0 900, perf_of 1 15 30 0 900]"
      and k = "(''Audit'', 2023, 1, ''Senior'')"]
  by (simp add: hours_row_def row_billing_rate_def mean_row_billing_rate_def summarize_def
      sum_skipna_def nan_to_zero_def rate_pct_def perf_sum_def perf_key_def perf_of_def)

text \<open>
  Claim C3 as stated fails for three rows: total hours 10, 20 and 40 and per-row rates 10,
  60 and 20 are pairwise unequal, and the aggregated rate equals the mean of the rates.
\<close>

theorem billing_rate_mean_counterexample:
  "distinct (map Total_Hours [hours_row 1 1 10, hours_row 1 12 20, hours_row 1 8 40]) \<and>
   map row_billing_rate [hours_row 1 1 10, hours_row 1 12 20, hours_row 1 8 40] = [10, 60, 20] \<and>
   billing_rate_avg (summarize [hours_row 1 1 10, hours_row 1 12 20, hours_row 1 8 40]) = 30 \<and>
   mean_row_billing_rate [hours_row 1 1 10, hours_row 1 12 20, hours_row 1 8 40] = 30"
  by (simp add: hours_row_def row_billing_rate_def mean_row_billing_rate_def summarize_def
      sum_skipna_def nan_to_zero_def rate_pct_def)

section \<open>Prompt2: the contribution margin's special rules\<close>

text \<open>
  Claim C2 (contribution margin edge cases).  With revenue 0 and production costs 0 the
  result is 0; with revenue 0 and positive production costs it is -100; with negative
  revenue it is \<open>-(margin / revenue) * 100\<close>; in every other case it is what
  \<^verbatim>\<open>(margin / revenue) * 100\<close> evaluates to, which for positive revenue is that number.
\<close>

theorem contribution_margin_cases:
  fixes row :: margin_row
  defines "revenue \<equiv> Total_Revenue_kNOK row"
    and "costs \<equiv> (case Production_Costs_kNOK row of None \<Rightarrow> 0 | Some c \<Rightarrow> c)"
    and "margin \<equiv> Contribution_Margin_kNOK row"
  shows "(revenue = 0 \<and> costs = 0 \<longrightarrow> calculate_contribution_margin row = Inr 0) \<and>
         (revenue = 0 \<and> costs > 0 \<longrightarrow> calculate_contribution_margin row = Inr (- 100)) \<and>
         (revenue < 0 \<longrightarrow> calculate_contribution_margin row = Inr (- (margin / revenue) * 100)) \<and>
         (\<not> (revenue = 0 \<and> costs = 0) \<and> \<not> (revenue = 0 \<and> costs > 0) \<and> \<not> revenue < 0 \<longrightarrow>
            calculate_contribution_margin row = ratio_pct margin revenue) \<and>
         (revenue > 0 \<longrightarrow> calculate_contribution_margin row = Inr (margin / revenue * 100))"
  unfolding revenue_def costs_def margin_def
  by (auto simp: calculate_contribution_margin_def ratio_pct_def flipped_ratio_pct_def
      py_div_def Let_def)

theorem contribution_margin_cases_witness:
  "calculate_contribution_margin (margin_of 7 0 (Some 0)) = Inr 0 \<and>
   calculate_contribution_margin (margin_of 7 0 (Some 5)) = Inr (- 100) \<and>
   calculate_contribution_margin (margin_of 20 (- 100) (Some 5)) = Inr 20 \<and>
   calculate_contribution_margin (margin_of 20 100 (Some 5)) = Inr 20 \<and>
   calculate_contribution_margin (margin_of 20 100 None) = ratio_pct 20 100"
  using contribution_margin_cases [of "margin_of 7 0 (Some 0)"]
    contribution_margin_cases [of "margin_of 7 0 (Some 5)"]
    contribution_margin_cases [of "margin_of 20 (- 100) (Some 5)"]
    contribution_margin_cases [of "margin_of 20 100 (Some 5)"]
    contribution_margin_cases [of "margin_of 20 100 None"]
  by (simp add: margin_of_def ratio_pct_def py_div_def)

lemma budget_contribution_margin_cases:
  "calculate_budget_contribution_margin row =
     (if Budget_Total_Revenue_kNOK row < 0
      then Inr (- (Budget_Contribution_Margin_kNOK row / Budget_Total_Revenue_kNOK row) * 100)
      else if Budget_Total_Revenue_kNOK row = 0 then Inr 0
      else Inr (Budget_Contribution_Margin_kNOK row / Budget_Total_Revenue_kNOK row * 100))"
  by (simp add: calculate_budget_contribution_margin_def ratio_pct_def flipped_ratio_pct_def
      py_div_def Let_def)

text \<open>
  Claim C10 fails on the code.  With revenue 0 and negative production costs neither
  special rule returns, and the row reaches the division by the revenue.
\<close>

theorem contribution_margin_negative_costs:
  "calculate_contribution_margin (margin_of 5 0 (Some (- 5))) = Inl ZeroDivisionError"
  by (simp add: calculate_contribution_margin_def margin_of_def ratio_pct_def py_div_def)

lemma contribution_margin_raises_iff:
  "calculate_contribution_margin row = Inl e \<longleftrightarrow>
     e = ZeroDivisionError \<and> Total_Revenue_kNOK row = 0 \<and>
     (\<exists>c. Production_Costs_kNOK row = Some c \<and> c < 0)"
  by (cases e)
    (auto simp: calculate_contribution_margin_def ratio_pct_def flipped_ratio_pct_def
      py_div_def Let_def split: option.splits)

section \<open>Prompt2: change against the previous period\<close>

lemma change_pct_previous:
  "p \<noteq> 0 \<Longrightarrow> change_pct cm (Some p) = (cm - p) / \<bar>p\<bar> * 100"
  by (simp add: change_pct_def)

lemma change_pct_no_signal:
  "change_pct cm None = 0" "change_pct cm (Some 0) = 0"
  by (simp_all add: change_pct_def)

section \<open>Prompt7: division by a zero or negative previous value\<close>

lemma grouped_three_months:
  "grouped_data [perf_of 1 b1 h1 a1 r1, perf_of 2 b2 h2 a2 r2, perf_of 3 b3 h3 a3 r3] =
     [perf_of 1 b1 h1 a1 r1, perf_of 2 b2 h2 a2 r2, perf_of 3 b3 h3 a3 r3]"
  by (simp add: grouped_data_def perf_sum_def perf_key_def perf_of_def)

text \<open>
  Claim C4 fails on Prompt7.  One role over three months with adjustments 0, -10 and -5:
  the change of the second month, whose previous value is zero, is minus infinity and not
  0, and the change of the third month is -50 where \<open>(current - previous) / |previous| * 100\<close>
  is 50.  The first month, which has no previous bucket, reports 0.
\<close>

theorem mom_adjustments_zero_and_negative_previous:
  "map rp_MoM_Adjustments
     (analyze_service_and_role_performance
        [perf_of 1 30 40 0 900, perf_of 2 30 40 (- 10) 900, perf_of 3 30 40 (- 5) 900])
     = [Fin 0, NInf, Fin (- 50)]"
  unfolding analyze_service_and_role_performance_def grouped_three_months Let_def
  by (simp add: mom_column_def mom_change_def Adjustments_col_def Billing_Rate_pct_def
      Hourly_Rate_def role_year_def perf_of_def)

lemma mom_change_positive_previous:
  "0 < p \<Longrightarrow> mom_change (Fin c) (Fin p) = Fin ((c - p) / \<bar>p\<bar> * 100)"
  by (simp add: mom_change_def)

lemma mom_change_missing_previous: "mom_change (Fin c) NaN = Fin 0"
  by (simp add: mom_change_def)

text \<open>
  Claim C9 fails on Prompt7.  A role with revenue 900 and no hours in the second month has
  an infinite hourly rate there, not a missing one.
\<close>

theorem hourly_rate_zero_hours:
  "map rp_Hourly_Rate
     (analyze_service_and_role_performance
        [perf_of 1 30 40 0 900, perf_of 2 0 0 0 900, perf_of 3 30 40 0 900])
     = [Fin (45 / 2), PInf, Fin (45 / 2)]"
  unfolding analyze_service_and_role_performance_def grouped_three_months Let_def
  by (simp add: mom_column_def mom_change_def Adjustments_col_def Billing_Rate_pct_def
      Hourly_Rate_def role_year_def perf_of_def)

section \<open>Prompt8: missing hourly rates\<close>

lemma hourly_rate_cases:
  "hourly_rate revenue hours = (if 0 < hours then Some (revenue / hours) else None)"
  by (simp add: hourly_rate_def)

lemma nan_less_None [simp]: "\<not> nan_less None m"
  by (simp add: nan_less_def)

text \<open>A missing rate is never selected as below the median.\<close>

lemma below_median_has_rate:
  assumes "analyze_below_median_employees data cost_center role year month = Some below"
    and "(e, rate) \<in> set below"
  shows "rate \<noteq> None"
proof -
  obtain m where "nan_less rate m"
    using assms
    by (auto simp: analyze_below_median_employees_def Let_def split: list.splits)
  then show ?thesis
    by (cases rate) simp_all
qed

lemma below_median_example:
  "analyze_below_median_employees
     [employee_of ''E1'' 900 10, employee_of ''E2'' 500 10, employee_of ''E3'' 700 0,
      employee_of ''E4'' 1000 10]
     ''CC1'' ''Senior'' (Some 2023) None
   = Some [(''E2'', Some 50)]"
  by (simp add: analyze_below_median_employees_def employee_of_def restrict_period_def
      truthy_def employee_rates_def hourly_rate_def dropna_def median_def nan_less_def)

section \<open>Prompt5: the quartiles are ordered\<close>

lemma interpolate_between:
  assumes "sorted s" and "s \<noteq> []" and "0 \<le> h" and "h \<le> real (length s - 1)"
  shows "s ! nat \<lfloor>h\<rfloor> \<le> interpolate s h"
    and "interpolate s h \<le> s ! min (nat \<lfloor>h\<rfloor> + 1) (length s - 1)"
proof -
  let ?i = "nat \<lfloor>h\<rfloor>"
  let ?j = "min (?i + 1) (length s - 1)"
  have frac: "0 \<le> h - real ?i" "h - real ?i \<le> 1"
    using assms(3) by linarith+
  have "?i \<le> length s - 1"
    using assms(3,4) by linarith
  then have "?i \<le> ?j" "?j < length s"
    using assms(2) by (auto simp: min_def)
  then have step: "s ! ?i \<le> s ! ?j"
    using assms(1) by (simp add: sorted_nth_mono)
  then have "0 \<le> (s ! ?j - s ! ?i) * (h - real ?i)"
    using frac by simp
  then show "s ! nat \<lfloor>h\<rfloor> \<le> interpolate s h"
    by (simp add: interpolate_def Let_def)
  have "(s ! ?j - s ! ?i) * (h - real ?i) \<le> (s ! ?j - s ! ?i) * 1"
    using step frac by (intro mult_left_mono) simp_all
  then show "interpolate s h \<le> s ! min (nat \<lfloor>h\<rfloor> + 1) (length s - 1)"
    by (simp add: interpolate_def Let_def)
qed

lemma interpolate_mono:
  assumes "sorted s" and "s \<noteq> []" and "0 \<le> h" and "h \<le> h'" and "h' \<le> real (length s - 1)"
  shows "interpolate s h \<le> interpolate s h'"
proof (cases "nat \<lfloor>h\<rfloor> = nat \<lfloor>h'\<rfloor>")
  case True
  let ?i = "nat \<lfloor>h\<rfloor>"
  let ?j = "min (?i + 1) (length s - 1)"
  have "?i \<le> length s - 1"
    using assms(3,4,5) by linarith
  then have "?i \<le> ?j" "?j < length s"
    using assms(2) by (auto simp: min_def)
  then have "s ! ?i \<le> s ! ?j"
    using assms(1) by (simp add: sorted_nth_mono)
  then have "(s ! ?j - s ! ?i) * (h - real ?i) \<le> (s ! ?j - s ! ?i) * (h' - real ?i)"
    using assms(4) by (intro mult_left_mono) simp_all
  then show ?thesis
    using True by (simp add: interpolate_def Let_def)
next
  case False
  let ?i = "nat \<lfloor>h\<rfloor>" and ?i' = "nat \<lfloor>h'\<rfloor>"
  have "\<lfloor>h\<rfloor> \<le> \<lfloor>h'\<rfloor>"
    using assms(4) by (rule floor_mono)
  then have lt: "?i < ?i'"
    using False by linarith
  have top: "?i' \<le> length s - 1"
    using assms(3,4,5) by linarith
  have "?i + 1 \<le> ?i'"
    using lt by linarith
  then have "min (?i + 1) (length s - 1) \<le> ?i'"
    by (rule min.coboundedI1)
  moreover have "?i' < length s"
    using assms(2) top by (cases s) auto
  ultimately have "s ! min (?i + 1) (length s - 1) \<le> s ! ?i'"
    using assms(1) by (intro sorted_nth_mono)
  moreover have "interpolate s h \<le> s ! min (?i + 1) (length s - 1)"
    using assms by (intro interpolate_between) auto
  moreover have "s ! ?i' \<le> interpolate s h'"
    using assms by (intro interpolate_between) auto
  ultimately show ?thesis by linarith
qed

lemma quartiles_ordered:
  assumes "quantile (1 / 4) xs = Some Q1" and "quantile (3 / 4) xs = Some Q3"
  shows "Q1 \<le> Q3"
proof -
  have ne: "xs \<noteq> []"
    using assms(1) by (auto simp: quantile_def)
  have sne: "sort xs \<noteq> []"
    using ne by (metis length_sort length_0_conv)
  have "interpolate (sort xs) (real (length xs - 1) * (1 / 4))
      \<le> interpolate (sort xs) (real (length xs - 1) * (3 / 4))"
    using sne by (intro interpolate_mono) auto
  then show ?thesis
    using assms ne by (simp add: quantile_def)
qed

section \<open>Prompt5: labels of the outliers\<close>

lemma detect_outliers_iqr_bounds:
  assumes "quantile (1 / 4) (map column data) = Some Q1"
    and "quantile (3 / 4) (map column data) = Some Q3"
  shows "(r, t) \<in> set (detect_outliers_iqr column data) \<longleftrightarrow>
           r \<in> set data \<and>
           (t = Some Low \<and> column r < Q1 - 1.5 * (Q3 - Q1) \<or>
            t = Some High \<and> column r > Q3 + 1.5 * (Q3 - Q1))"
proof -
  define lo where "lo = Q1 - 1.5 * (Q3 - Q1)"
  define hi where "hi = Q3 + 1.5 * (Q3 - Q1)"
  have "Q1 \<le> Q3"
    using assms by (rule quartiles_ordered)
  then have le: "lo \<le> hi"
    unfolding lo_def hi_def by argo
  have det: "detect_outliers_iqr column data =
      map (\<lambda>r. (r, outlier_label lo hi (column r)))
        (filter (\<lambda>r. column r < lo \<or> column r > hi) data)"
    unfolding detect_outliers_iqr_def assms lo_def hi_def Let_def by simp
  have "(r, t) \<in> set (detect_outliers_iqr column data) \<longleftrightarrow>
      r \<in> set data \<and> (t = Some Low \<and> column r < lo \<or> t = Some High \<and> column r > hi)"
    using le unfolding det by (auto simp: outlier_label_def)
  then show ?thesis
    unfolding lo_def hi_def .
qed

text \<open>
  Claim C5 (IQR outlier labeling).  In a partition that has rows, with Q1 and Q3 the 0.25
  and 0.75 quantiles of the metric and IQR = Q3 - Q1, a row is reported with label Low
  exactly when its value is below Q1 - 1.5 IQR and with label High exactly when its value
  is above Q3 + 1.5 IQR; a row within the bounds is not reported.  For the values 1, 2, 3,
  4, 5 and 100 only 100 is reported, with label High.
\<close>

theorem iqr_outlier_labels:
  "(data \<noteq> [] \<longrightarrow>
      (\<exists>Q1 Q3. quantile (1 / 4) (map column data) = Some Q1 \<and>
               quantile (3 / 4) (map column data) = Some Q3 \<and>
               (\<forall>r t. (r, t) \<in> set (detect_outliers_iqr column data) \<longleftrightarrow>
                  r \<in> set data \<and>
                  (t = Some Low \<and> column r < Q1 - 1.5 * (Q3 - Q1) \<or>
                   t = Some High \<and> column r > Q3 + 1.5 * (Q3 - Q1))))) \<and>
   detect_outliers_iqr (\<lambda>v. v) [1, 2, 3, 4, 5, 100] = [(100, Some High)]"
proof (intro conjI impI)
  assume "data \<noteq> []"
  then obtain Q1 Q3 where q: "quantile (1 / 4) (map column data) = Some Q1"
      "quantile (3 / 4) (map column data) = Some Q3"
    by (auto simp: quantile_def)
  show "\<exists>Q1 Q3. quantile (1 / 4) (map column data) = Some Q1 \<and>
      quantile (3 / 4) (map column data) = Some Q3 \<and>
      (\<forall>r t. (r, t) \<in> set (detect_outliers_iqr column data) \<longleftrightarrow>
         r \<in> set data \<and>
         (t = Some Low \<and> column r < Q1 - 1.5 * (Q3 - Q1) \<or>
          t = Some High \<and> column r > Q3 + 1.5 * (Q3 - Q1)))"
    using q detect_outliers_iqr_bounds [OF q] by blast
next
  show "detect_outliers_iqr (\<lambda>v. v) [1, 2, 3, 4, 5, 100] = [(100, Some High)]"
    by (simp add: detect_outliers_iqr_def quantile_def interpolate_def outlier_label_def)
qed

theorem iqr_outlier_labels_witness:
  "[1, 2, 3, 4, 5, 100 :: real] \<noteq> [] \<and>
   quantile (1 / 4) [1, 2, 3, 4, 5, 100] = Some (9 / 4) \<and>
   quantile (3 / 4) [1, 2, 3, 4, 5, 100] = Some (19 / 4) \<and>
   (100, Some High) \<in> set (detect_outliers_iqr (\<lambda>v. v) [1, 2, 3, 4, 5, 100]) \<and>
   (5, Some High) \<notin> set (detect_outliers_iqr (\<lambda>v. v) [1, 2, 3, 4, 5, 100])"
  using iqr_outlier_labels [of "[1, 2, 3, 4, 5, 100]" "\<lambda>v. v"]
  by (simp add: quantile_def interpolate_def)

section \<open>Prompt6: what is flagged\<close>

lemma series_std_defined: "series_std xs \<noteq> None \<longleftrightarrow> 2 \<le> length xs"
  by (auto simp: series_std_def Let_def)

text \<open>
  Claim C6, as amended.  Within one task's partition, whenever the mean \<open>\<mu>\<close> and the
  standard deviation \<open>\<sigma>\<close> of the hours exist, the flagged rows are exactly those whose
  hours are above \<open>\<mu> + k \<sigma>\<close>; nothing is flagged on the low side.  For a partition of
  one observation the standard deviation is missing (not 0), and no row is flagged.
\<close>

theorem threshold_outliers:
  "(series_mean (map tk_Billable_Hours task_data) = Some \<mu> \<and>
    series_std (map tk_Billable_Hours task_data) = Some \<sigma> \<longrightarrow>
      task_outliers k task_data = filter (\<lambda>r. tk_Billable_Hours r > \<mu> + k * \<sigma>) task_data) \<and>
   series_std (map tk_Billable_Hours [r]) = None \<and>
   task_outliers k [r] = []"
  by (simp add: task_outliers_def task_threshold_def series_std_def split: option.splits)

theorem threshold_outliers_witness:
  "series_mean (map tk_Billable_Hours [task_of ''E1'' 1, task_of ''E2'' 3, task_of ''E3'' 5]) = Some 3 \<and>
   series_std (map tk_Billable_Hours [task_of ''E1'' 1, task_of ''E2'' 3, task_of ''E3'' 5]) = Some 2 \<and>
   task_outliers (1 / 2) [task_of ''E1'' 1, task_of ''E2'' 3, task_of ''E3'' 5] = [task_of ''E3'' 5]"
proof -
  have m: "series_mean (map tk_Billable_Hours [task_of ''E1'' 1, task_of ''E2'' 3, task_of ''E3'' 5]) = Some 3"
    by (simp add: series_mean_def task_of_def)
  have "sqrt (4::real) = 2"
    by simp
  then have s: "series_std (map tk_Billable_Hours [task_of ''E1'' 1, task_of ''E2'' 3, task_of ''E3'' 5]) = Some 2"
    by (simp add: series_std_def task_of_def power2_eq_square)
  show ?thesis
    using threshold_outliers [of "[task_of ''E1'' 1, task_of ''E2'' 3, task_of ''E3'' 5]" 3 2 "1 / 2"] m s
    by (simp add: task_of_def)
qed

text \<open>
  Claim C6 as stated fails: the standard deviation of a single observation is missing,
  not 0.
\<close>

theorem single_observation_std_counterexample:
  "series_std (map tk_Billable_Hours [task_of ''E1'' 8]) \<noteq> Some 0"
  by (simp add: series_std_def)

lemma identify_outliers_monthly_example:
  "identify_outliers_monthly (1 / 2)
     [task_of ''E1'' 1, task_of ''E2'' 3, task_of ''E3'' 2, task_of ''E3'' 3]
   = [((''Audit'', ''Senior'', 2023, 1), [task_of ''E3'' 5])]"
proof -
  have "sqrt (4::real) = 2"
    by simp
  then show ?thesis
    by (simp add: identify_outliers_monthly_def data_aggregated_monthly_def groupby_def
        employee_task_key_def task_outliers_def task_threshold_def series_mean_def
        series_std_def task_of_def power2_eq_square)
qed

section \<open>Ranking: one row per entity\<close>

lemma groupby_keys: "map fst (groupby key rows) = sort (unique (map key rows))"
  by (simp add: groupby_def comp_def)

lemma distinct_groupby_keys: "distinct (map fst (groupby key rows))"
  by (simp add: groupby_keys distinct_unique)

lemma aggregated_data_keys: "map project_key (aggregated_data data) = map fst (groupby project_key data)"
  by (simp add: aggregated_data_def project_key_def comp_def case_prod_unfold)

lemma monthly_data_one_row_per_project:
  "distinct (map pj_Project (monthly_data data year service_line month))"
proof -
  let ?part = "monthly_data data year service_line month"
  have "distinct (map project_key (aggregated_data data))"
    by (simp only: aggregated_data_keys distinct_groupby_keys)
  then have "distinct (map project_key ?part)"
    unfolding monthly_data_def by (intro distinct_map_filter)
  moreover have "project_key r = (year, service_line, month, pj_Project r)" if "r \<in> set ?part" for r
    using that by (auto simp: monthly_data_def project_key_def)
  ultimately show ?thesis
    by (auto simp: distinct_map inj_on_def)
qed

lemma task_costs_one_row_per_task: "distinct (map cs_Task (task_costs role_data))"
proof -
  have "map cs_Task (task_costs role_data) = map fst (groupby cs_Task role_data)"
    by (simp add: task_costs_def comp_def case_prod_unfold)
  then show ?thesis
    by (simp only: distinct_groupby_keys)
qed

section \<open>Ranking: size and order\<close>

lemma in_order_take: "in_order ascending vs \<Longrightarrow> in_order ascending (take n vs)"
  by (auto simp: in_order_def sorted_wrt_take)

text \<open>
  Whatever the order of rows with equal values, a sorted frame \<open>s\<close> holds the rows of
  the partition in the direction of the metric.  Its first \<open>n\<close> rows are then
  \<open>min n (number of entities)\<close> rows of the partition, in order, each row left out ranks
  no better than each row kept, and with \<open>n\<close> at least the number of entities they are
  all of them.
\<close>

lemma head_of_sorted_frame:
  assumes "mset s = mset frame" and "in_order ascending (map metric s)"
  shows "length (take n s) = min n (length frame) \<and>
         in_order ascending (map metric (take n s)) \<and>
         mset (take n s) \<subseteq># mset frame \<and>
         (length frame \<le> n \<longrightarrow> mset (take n s) = mset frame) \<and>
         (\<forall>kept \<in> set (take n s). \<forall>left \<in># mset frame - mset (take n s).
            if ascending then metric kept \<le> metric left else metric left \<le> metric kept)"
proof -
  define out where "out = take n s"
  note ok = assms
  note out = out_def
  have len: "length s = length frame"
    using ok(1) by (rule mset_eq_length)
  have split: "mset frame = mset out + mset (drop n s)"
    unfolding out ok(1) [symmetric] by (metis append_take_drop_id mset_append)
  have rest: "mset frame - mset out = mset (drop n s)"
    by (simp add: split)
  have order: "if ascending then metric kept \<le> metric left else metric left \<le> metric kept"
    if "kept \<in> set (take n s)" "left \<in> set (drop n s)" for kept left
  proof -
    have "in_order ascending (map metric (take n s) @ map metric (drop n s))"
      using ok(2) by (metis append_take_drop_id map_append)
    then show ?thesis
      using that by (auto simp: in_order_def sorted_append sorted_wrt_append)
  qed
  show ?thesis
    unfolding out [symmetric]
  proof (intro conjI impI ballI)
    show "length out = min n (length frame)"
      by (simp add: out len min.commute)
    show "in_order ascending (map metric out)"
      unfolding out take_map [symmetric] using ok(2) by (rule in_order_take)
    show "mset out \<subseteq># mset frame"
      by (simp add: split)
    show "mset out = mset frame" if "length frame \<le> n"
      using that by (simp add: out len ok(1))
    show "if ascending then metric kept \<le> metric left else metric left \<le> metric kept"
      if "kept \<in> set out" "left \<in># mset frame - mset out" for kept left
    proof -
      have "left \<in># mset (drop n s)"
        using that(2) by (simp only: rest)
      then have "left \<in> set (drop n s)"
        by simp
      moreover have "kept \<in> set (take n s)"
        using that(1) by (simp only: out)
      ultimately show ?thesis
        by (rule order [rotated])
    qed
  qed
qed

lemma monthly_data_example:
  "monthly_data
     [project_of ''P2'' 4, project_of ''P1'' 5, project_of ''P2'' 5] 2023 ''Audit'' 1
   = [project_of ''P1'' 5, project_of ''P2'' 9]"
  by (simp add: monthly_data_def aggregated_data_def groupby_def project_key_def project_of_def)

section \<open>Prompt1: the whole run\<close>

lemma monthly_loop_error:
  "monthly_loop sdf months = Inl e \<Longrightarrow> e = IndexError"
  by (induction months) (auto simp: month_name_def split: if_splits sum.splits)

lemma monthly_loop_raises:
  "m \<in> set months \<Longrightarrow> m < - 13 \<or> 12 < m \<Longrightarrow> monthly_loop sdf months = Inl IndexError"
proof (induction months)
  case Nil
  then show ?case by simp
next
  case (Cons a months)
  show ?case
  proof (cases "month_name a")
    case (Inl e)
    then show ?thesis
      by (auto simp: month_name_def split: if_splits)
  next
    case (Inr name)
    then have "a \<noteq> m"
      using Cons.prems(2) by (auto simp: month_name_def split: if_splits)
    then have "monthly_loop sdf months = Inl IndexError"
      using Cons by simp
    then show ?thesis
      using Inr by simp
  qed
qed

lemma service_report_error: "service_report df year service = Inl e \<Longrightarrow> e = IndexError"
  by (auto simp: service_report_def monthly_summaries_def Let_def split: sum.splits
      dest: monthly_loop_error)

lemma report_loop_error: "report_loop df groups = Inl e \<Longrightarrow> e = IndexError"
  by (induction groups) (auto split: sum.splits dest: service_report_error)

lemma report_loop_raises:
  "(year, service) \<in> set groups \<Longrightarrow> service_report df year service = Inl e \<Longrightarrow>
     report_loop df groups = Inl IndexError"
proof (induction groups)
  case Nil
  then show ?case by simp
next
  case (Cons g groups)
  obtain y s where g: "g = (y, s)" by (cases g)
  show ?case
  proof (cases "service_report df y s")
    case (Inl e')
    then show ?thesis
      using g service_report_error [OF Inl] by simp
  next
    case (Inr rep)
    then have "(year, service) \<in> set groups"
      using Cons.prems g by auto
    then have "report_loop df groups = Inl IndexError"
      using Cons by simp
    then show ?thesis
      using g Inr by simp
  qed
qed

lemma report_loop_member:
  "report_loop df groups = Inr reps \<Longrightarrow> (year, service) \<in> set groups \<Longrightarrow>
     \<exists>g \<in> set reps. service_report df year service = Inr g"
proof (induction groups arbitrary: reps)
  case Nil
  then show ?case by simp
next
  case (Cons a groups)
  then show ?case
    by (cases a) (auto split: sum.splits)
qed

lemma report_loop_completes:
  "(\<And>year service. (year, service) \<in> set groups \<Longrightarrow> \<exists>g. service_report df year service = Inr g)
     \<Longrightarrow> \<exists>reps. report_loop df groups = Inr reps"
proof (induction groups)
  case Nil
  then show ?case by simp
next
  case (Cons a groups)
  obtain y s where a: "a = (y, s)" by (cases a)
  obtain g where "service_report df y s = Inr g"
    using Cons.prems [of y s] a by auto
  moreover obtain reps where "report_loop df groups = Inr reps"
    using Cons by auto
  ultimately show ?case
    using a by simp
qed

lemma row_in_its_group:
  assumes "r \<in> set df"
  shows "(Year r, Service_Areas_Shortname r) \<in> set (year_service_groups df)"
    and "r \<in> set (service_df df (Year r) (Service_Areas_Shortname r))"
  using assms by (auto simp: year_service_groups_def set_unique yearly_df_def service_df_def)

lemma service_df_subset: "set (service_df df year service) \<subseteq> set df"
  by (auto simp: service_df_def yearly_df_def)

text \<open>
  Claim C8, as amended.  Prompt1 rejects no row and its report has no count of skipped
  rows.  A row whose month is outside 1..12 gets no quarter label and is summed into no
  quarterly bucket.  A month above 12 or below -13 makes the monthly loop raise
  \<^verbatim>\<open>IndexError\<close>, and the run ends without a report.  When the run completes, the
  month of such a row is at most 0, and its measures are summed into the half-year bucket
  H1 of its year and service line in the report.  The run completes whenever every month
  of the frame is between -13 and 12.
\<close>

theorem invalid_month_run:
  fixes df :: "fact_row list" and r :: fact_row
  defines "sdf \<equiv> service_df df (Year r) (Service_Areas_Shortname r)"
  assumes "r \<in> set df" and "Month r < 1 \<or> 12 < Month r"
  shows "get_quarter (Month r) = None \<and>
         r \<notin> set (period_df get_quarter sdf period) \<and>
         (Month r < - 13 \<or> 12 < Month r \<longrightarrow> run_report df = Inl IndexError) \<and>
         (run_report df = Inr reps \<longrightarrow>
            Month r \<le> 0 \<and>
            r \<in> set (period_df get_half_year sdf (Some ''H1'')) \<and>
            (\<exists>g \<in> set reps.
               gr_Year g = Year r \<and> gr_Service g = Service_Areas_Shortname r \<and>
               gr_quarters g = period_summaries get_quarter sdf \<and>
               (Some ''H1'', summarize (period_df get_half_year sdf (Some ''H1'')))
                 \<in> set (gr_half_years g))) \<and>
         ((\<forall>x \<in> set df. - 13 \<le> Month x \<and> Month x \<le> 12) \<longrightarrow>
            (\<exists>reps. run_report df = Inr reps))"
proof -
  have member: "r \<in> set sdf"
    unfolding sdf_def using assms(2) by (rule row_in_its_group)
  have group: "(Year r, Service_Areas_Shortname r) \<in> set (year_service_groups df)"
    using assms(2) by (rule row_in_its_group)
  have no_quarter: "get_quarter (Month r) = None"
    using assms(3) by (simp add: get_quarter_None)
  have not_in_quarter: "r \<notin> set (period_df get_quarter sdf period)"
    using assms(3) period_df_quarter_valid [of r sdf period] by auto
  have abort: "run_report df = Inl IndexError" if "Month r < - 13 \<or> 12 < Month r"
  proof -
    have "Month r \<in> set (unique (map Month sdf))"
      using member by (simp add: set_unique)
    then have "monthly_summaries sdf = Inl IndexError"
      unfolding monthly_summaries_def using that by (rule monthly_loop_raises)
    then have "service_report df (Year r) (Service_Areas_Shortname r) = Inl IndexError"
      by (simp add: service_report_def sdf_def)
    then show ?thesis
      unfolding run_report_def using group by (intro report_loop_raises)
  qed
  have finished: "Month r \<le> 0 \<and>
      r \<in> set (period_df get_half_year sdf (Some ''H1'')) \<and>
      (\<exists>g \<in> set reps.
         gr_Year g = Year r \<and> gr_Service g = Service_Areas_Shortname r \<and>
         gr_quarters g = period_summaries get_quarter sdf \<and>
         (Some ''H1'', summarize (period_df get_half_year sdf (Some ''H1'')))
           \<in> set (gr_half_years g))"
    if run: "run_report df = Inr reps"
  proof -
    have "\<not> (Month r < - 13 \<or> 12 < Month r)"
      using abort run by auto
    then have low: "Month r \<le> 0"
      using assms(3) by linarith
    then have half: "get_half_year (Month r) = Some ''H1''"
      by (simp add: get_half_year_def)
    have in_h1: "r \<in> set (period_df get_half_year sdf (Some ''H1''))"
      using member half by (simp add: period_df_def label_eq_def)
    have "Some ''H1'' \<in> set (unique (map (\<lambda>r. get_half_year (Month r)) sdf))"
      using member half by (force simp: set_unique)
    then have bucket: "(Some ''H1'', summarize (period_df get_half_year sdf (Some ''H1'')))
        \<in> set (period_summaries get_half_year sdf)"
      by (auto simp: period_summaries_def)
    obtain g where g: "g \<in> set reps"
        "service_report df (Year r) (Service_Areas_Shortname r) = Inr g"
      using report_loop_member [OF run [unfolded run_report_def] group] by blast
    from g(2) have "gr_Year g = Year r \<and> gr_Service g = Service_Areas_Shortname r \<and>
        gr_quarters g = period_summaries get_quarter sdf \<and>
        gr_half_years g = period_summaries get_half_year sdf"
      by (auto simp: service_report_def sdf_def Let_def split: sum.splits)
    then show ?thesis
      using low in_h1 bucket g(1) by auto
  qed
  have completes: "\<exists>reps. run_report df = Inr reps"
    if valid: "\<forall>x \<in> set df. - 13 \<le> Month x \<and> Month x \<le> 12"
    unfolding run_report_def
  proof (rule report_loop_completes)
    fix year service
    have "\<forall>m \<in> set (unique (map Month (service_df df year service))). - 13 \<le> m \<and> m \<le> 12"
      using valid service_df_subset [of df year service] by (auto simp: set_unique)
    then obtain months where "monthly_summaries (service_df df year service) = Inr months"
      unfolding monthly_summaries_def using monthly_loop_completes by blast
    then show "\<exists>g. service_report df year service = Inr g"
      by (simp add: service_report_def Let_def)
  qed
  show ?thesis
    using no_quarter not_in_quarter abort finished completes by blast
qed

lemma run_report_month_zero:
  "run_report [hours_row 0 5 8] =
     Inr [\<lparr>gr_Year = 2023, gr_Service = ''Audit'',
           gr_yearly = \<lparr>total_billable_hours = 5, total_hours = 8, utilized_hours = 5,
             billing_rate_avg = 125 / 2, utilization_rate_avg = 125 / 2\<rparr>,
           gr_quarters = [(None, \<lparr>total_billable_hours = 0, total_hours = 0, utilized_hours = 0,
             billing_rate_avg = 0, utilization_rate_avg = 0\<rparr>)],
           gr_half_years = [(Some ''H1'', \<lparr>total_billable_hours = 5, total_hours = 8,
             utilized_hours = 5, billing_rate_avg = 125 / 2, utilization_rate_avg = 125 / 2\<rparr>)],
           gr_months = [(0, [], \<lparr>total_billable_hours = 5, total_hours = 8,
             utilized_hours = 5, billing_rate_avg = 125 / 2, utilization_rate_avg = 125 / 2\<rparr>)]\<rparr>]"
  by (simp add: run_report_def year_service_groups_def service_report_def service_df_def
      yearly_df_def monthly_summaries_def month_name_def month_names_def month_df_def
      period_summaries_def period_df_def label_eq_def get_quarter_def get_half_year_def
      hours_row_def summarize_def sum_skipna_def nan_to_zero_def rate_pct_def)

theorem invalid_month_run_witness:
  "hours_row 0 5 8 \<in> set [hours_row 0 5 8] \<and>
   Month (hours_row 0 5 8) < 1 \<and>
   get_quarter (Month (hours_row 0 5 8)) = None \<and>
   Month (hours_row 0 5 8) \<le> 0 \<and>
   hours_row 0 5 8
     \<in> set (period_df get_half_year (service_df [hours_row 0 5 8] 2023 ''Audit'') (Some ''H1'')) \<and>
   hours_row 0 5 8
     \<notin> set (period_df get_quarter (service_df [hours_row 0 5 8] 2023 ''Audit'') None)"
proof -
  have row: "hours_row 0 5 8 \<in> set [hours_row 0 5 8]"
    by simp
  have month: "Month (hours_row 0 5 8) < 1 \<or> 12 < Month (hours_row 0 5 8)"
    by (simp add: hours_row_def)
  show ?thesis
    using invalid_month_run [OF row month, of None] run_report_month_zero
    by (simp add: hours_row_def)
qed

text \<open>
  Claim C8 as stated fails.  A single row with month 0 is not rejected: the run completes
  and the report's half-year bucket H1 holds its hours.  A row with month 13 is not
  skipped either: the run ends with \<^verbatim>\<open>IndexError\<close> and the valid row beside it is
  never reported.
\<close>

theorem invalid_month_counterexample:
  "run_report [hours_row 0 5 8] =
     Inr [\<lparr>gr_Year = 2023, gr_Service = ''Audit'',
           gr_yearly = \<lparr>total_billable_hours = 5, total_hours = 8, utilized_hours = 5,
             billing_rate_avg = 125 / 2, utilization_rate_avg = 125 / 2\<rparr>,
           gr_quarters = [(None, \<lparr>total_billable_hours = 0, total_hours = 0, utilized_hours = 0,
             billing_rate_avg = 0, utilization_rate_avg = 0\<rparr>)],
           gr_half_years = [(Some ''H1'', \<lparr>total_billable_hours = 5, total_hours = 8,
             utilized_hours = 5, billing_rate_avg = 125 / 2, utilization_rate_avg = 125 / 2\<rparr>)],
           gr_months = [(0, [], \<lparr>total_billable_hours = 5, total_hours = 8,
             utilized_hours = 5, billing_rate_avg = 125 / 2, utilization_rate_avg = 125 / 2\<rparr>)]\<rparr>] \<and>
   run_report [hours_row 13 5 8, hours_row 3 1 2] = Inl IndexError"
  by (simp add: run_report_def year_service_groups_def service_report_def service_df_def
      yearly_df_def monthly_summaries_def month_name_def month_names_def month_df_def
      period_summaries_def period_df_def label_eq_def get_quarter_def get_half_year_def
      hours_row_def summarize_def sum_skipna_def nan_to_zero_def rate_pct_def)

end
